theory Spec2Isabelle
  imports Main
begin

section \<open>The todo slice: data model\<close>

text \<open>
  Modelled from the spec: \<^verbatim>\<open>Todo\<close> (todo.model.ts, imported by the reducer, is not part
  of the sources) is an object with an \<^verbatim>\<open>id\<close> and a \<^verbatim>\<open>content\<close>, both strings, as in
  the object literal of the \<^verbatim>\<open>addTodo\<close> handler. The field \<^verbatim>\<open>id\<close> is called \<open>todo_id\<close>
  here, since \<open>id\<close> is the identity function of HOL.
\<close>

record Todo =
  todo_id :: string
  content :: string

text \<open>
  \<^verbatim>\<open>status: 'pending' | 'loading' | 'error' | 'success'\<close>: a union of four string
  literals.
\<close>

datatype Status = Pending | Loading | Error | Success

text \<open>
  \<^verbatim>\<open>TodoState\<close>. The field \<^verbatim>\<open>error\<close> is declared \<^verbatim>\<open>string\<close>, but \<^verbatim>\<open>initialState\<close> and the
  \<^verbatim>\<open>loadTodosSuccess\<close> handler store \<^verbatim>\<open>null\<close> in it, so it is an optional string with
  \<open>None\<close> for \<^verbatim>\<open>null\<close>.
\<close>

record TodoState =
  todos :: "Todo list"
  error :: "string option"
  status :: Status

definition initialState :: TodoState where
  "initialState = \<lparr>todos = [], error = None, status = Pending\<rparr>"

subsection \<open>Actions\<close>

text \<open>
  The five action creators of todo.actions.ts, each with the props its \<^verbatim>\<open>props<...>()\<close>
  declares. \<open>OtherAction k\<close> is an action made by any other creator of the
  application (the scoreboard's, the store's own init action), of which the reducer
  only ever reads the \<^verbatim>\<open>type\<close> string \<open>k\<close>.
\<close>

datatype Action =
    AddTodo string
  | RemoveTodo string
  | LoadTodos
  | LoadTodosSuccess "Todo list"
  | LoadTodosFailure string
  | OtherAction string

definition addTodo_type :: string where
  "addTodo_type = ''[Todo Page] Add Todo''"

definition removeTodo_type :: string where
  "removeTodo_type = ''[Todo Page] Remove Todo''"

definition loadTodos_type :: string where
  "loadTodos_type = ''[Todo Page] Load Todos''"

definition loadTodosSuccess_type :: string where
  "loadTodosSuccess_type = ''[Todo API] Todo Load Success''"

definition loadTodosFailure_type :: string where
  "loadTodosFailure_type = ''[Todo API] Todo Load Failure''"

text \<open>The \<^verbatim>\<open>type\<close> property of an action: the string its creator was made with.\<close>

fun action_type :: "Action \<Rightarrow> string" where
  "action_type (AddTodo c) = addTodo_type"
| "action_type (RemoveTodo i) = removeTodo_type"
| "action_type LoadTodos = loadTodos_type"
| "action_type (LoadTodosSuccess ts) = loadTodosSuccess_type"
| "action_type (LoadTodosFailure e) = loadTodosFailure_type"
| "action_type (OtherAction k) = k"

subsection \<open>\<^verbatim>\<open>Date.now().toString()\<close>\<close>

text \<open>
  \<^verbatim>\<open>Date.now()\<close> reads the clock: the milliseconds since the epoch, a non-negative
  integer. The reading is an input of the model (\<open>now\<close>), so that what the reducer
  takes from its environment is explicit. \<^verbatim>\<open>toString()\<close> on such a number is its
  decimal representation.
\<close>

definition digit :: "nat \<Rightarrow> char" where
  "digit d = ''0123456789'' ! d"

fun toString :: "nat \<Rightarrow> string" where
  "toString n = (if n < 10 then [digit n] else toString (n div 10) @ [digit (n mod 10)])"

declare toString.simps [simp del]

section \<open>The reducer\<close>

text \<open>
  The handlers, in the order of the \<^verbatim>\<open>on(...)\<close> calls of the source. Each takes the
  clock reading, the state and the action; only the \<^verbatim>\<open>addTodo\<close> handler reads the clock.
  A handler is bound to one creator and destructures the props of that creator's
  actions; TypeScript's typing of \<^verbatim>\<open>on\<close> excludes every other action, and the
  \<open>case\<close> expressions below say nothing about them.
\<close>

type_synonym handler = "nat \<Rightarrow> TodoState \<Rightarrow> Action \<Rightarrow> TodoState"

definition on_addTodo :: handler where
  "on_addTodo now state a =
     (case a of AddTodo c \<Rightarrow>
        state\<lparr>todos := todos state @ [\<lparr>todo_id = toString now, content = c\<rparr>]\<rparr>)"

definition on_removeTodo :: handler where
  "on_removeTodo now state a =
     (case a of RemoveTodo i \<Rightarrow>
        state\<lparr>todos := filter (\<lambda>todo. todo_id todo \<noteq> i) (todos state)\<rparr>)"

definition on_loadTodos :: handler where
  "on_loadTodos now state a = state\<lparr>status := Loading\<rparr>"

definition on_loadTodosSuccess :: handler where
  "on_loadTodosSuccess now state a =
     (case a of LoadTodosSuccess ts \<Rightarrow>
        state\<lparr>todos := ts, error := None, status := Success\<rparr>)"

definition on_loadTodosFailure :: handler where
  "on_loadTodosFailure now state a =
     (case a of LoadTodosFailure e \<Rightarrow>
        state\<lparr>error := Some e, status := Error\<rparr>)"

text \<open>
  Modelled from the spec: \<^verbatim>\<open>createReducer\<close> and \<^verbatim>\<open>on\<close> belong to the library
  \<^verbatim>\<open>@ngrx/store\<close>, which is not part of the sources. The specification's reducer
  contract is used: the reducer looks the action's kind up among its bound handlers,
  runs the matching handler, and otherwise returns its input.
\<close>

definition on :: "string \<Rightarrow> handler \<Rightarrow> string \<times> handler" where
  "on creator_type h = (creator_type, h)"

definition createReducer :: "(string \<times> handler) list \<Rightarrow> handler" where
  "createReducer ons now state a =
     (case map_of ons (action_type a) of
        Some h \<Rightarrow> h now state a
      | None \<Rightarrow> state)"

definition todo_ons :: "(string \<times> handler) list" where
  "todo_ons =
     [on addTodo_type on_addTodo,
      on removeTodo_type on_removeTodo,
      on loadTodos_type on_loadTodos,
      on loadTodosSuccess_type on_loadTodosSuccess,
      on loadTodosFailure_type on_loadTodosFailure]"

definition todoReducer :: handler where
  "todoReducer = createReducer todo_ons"

text \<open>The kinds the reducer has a handler for.\<close>

definition handled_types :: "string list" where
  "handled_types = map fst todo_ons"

subsection \<open>Dispatching a sequence of actions\<close>

text \<open>
  A run of the reducer over a sequence of dispatched actions, from the left. Each
  action comes with the clock reading at the moment the reducer handles it, since
  that reading is what \<^verbatim>\<open>Date.now()\<close> returns inside the \<^verbatim>\<open>addTodo\<close> handler.
\<close>

fun dispatchAll :: "TodoState \<Rightarrow> (nat \<times> Action) list \<Rightarrow> TodoState" where
  "dispatchAll s [] = s"
| "dispatchAll s ((now, a) # rest) = dispatchAll (todoReducer now s a) rest"

subsection \<open>The reducer on references\<close>

text \<open>
  JavaScript's \<^verbatim>\<open>===\<close> on objects compares references. An object is modelled by its
  address together with its contents (state objects are never mutated, so the
  contents at an address do not change).
\<close>

datatype 'a obj = Obj (addr: nat) (val: 'a)

definition ref_eq :: "'a obj \<Rightarrow> 'a obj \<Rightarrow> bool" where
  "ref_eq x y = (addr x = addr y)"

text \<open>
  Modelled from the spec: the reference returned by a reducer made by
  \<^verbatim>\<open>createReducer\<close> (library code, not part of the sources). Every handler of the
  source returns an object literal \<^verbatim>\<open>({ ...state, ... })\<close>, which is a new object: it
  is allocated at the next free address \<open>free\<close>. Without a matching handler the
  reducer returns the reference it was given and allocates nothing. The result is the
  returned object and the next free address.
\<close>

definition createReducer_ref ::
  "(string \<times> handler) list \<Rightarrow> nat \<Rightarrow> nat \<Rightarrow> TodoState obj \<Rightarrow> Action \<Rightarrow> TodoState obj \<times> nat" where
  "createReducer_ref ons now free state a =
     (case map_of ons (action_type a) of
        Some h \<Rightarrow> (Obj free (h now (val state) a), Suc free)
      | None \<Rightarrow> (state, free))"

definition todoReducer_ref ::
  "nat \<Rightarrow> nat \<Rightarrow> TodoState obj \<Rightarrow> Action \<Rightarrow> TodoState obj \<times> nat" where
  "todoReducer_ref = createReducer_ref todo_ons"

section \<open>Selectors\<close>

text \<open>
  Modelled from the spec: \<^verbatim>\<open>AppState\<close> (app.state.ts is not part of the sources) is the
  root state, with the todo slice under the key \<^verbatim>\<open>todos\<close>, called \<open>todos_slice\<close> here
  to keep it apart from the field of \<open>TodoState\<close>.
\<close>

record AppState =
  todos_slice :: "TodoState obj"

text \<open>\<^verbatim>\<open>selectTodos = (state: AppState) => state.todos\<close>: a reference to the todo slice.\<close>

definition selectTodos :: "AppState \<Rightarrow> TodoState obj" where
  "selectTodos state = todos_slice state"

text \<open>
  Modelled from the spec: \<^verbatim>\<open>createSelector\<close> belongs to \<^verbatim>\<open>@ngrx/store\<close>, which is not
  part of the sources. The memo cell holds \<^verbatim>\<open>(lastInputRefs, lastOutput)\<close>, empty
  before the first invocation; \<open>projector_calls\<close> counts the invocations of the
  projector. An invocation (a) evaluates each input selector against the state,
  (b) compares the results to the cell's last tuple by reference, (c) returns the
  memoized output if they are unchanged, and otherwise calls the projector on the
  results, stores the new tuple and output, and returns the output.
\<close>

record 'o memo_cell =
  memo :: "(nat list \<times> 'o) option"
  projector_calls :: nat

definition empty_cell :: "'o memo_cell" where
  "empty_cell = \<lparr>memo = None, projector_calls = 0\<rparr>"

definition recompute :: "('i obj list \<Rightarrow> 'o) \<Rightarrow> 'i obj list \<Rightarrow> 'o memo_cell \<Rightarrow> 'o \<times> 'o memo_cell" where
  "recompute projector results cell =
     (let out = projector results
      in (out, \<lparr>memo = Some (map addr results, out),
                projector_calls = Suc (projector_calls cell)\<rparr>))"

definition createSelector ::
  "('s \<Rightarrow> 'i obj) list \<Rightarrow> ('i obj list \<Rightarrow> 'o) \<Rightarrow> 'o memo_cell \<Rightarrow> 's \<Rightarrow> 'o \<times> 'o memo_cell" where
  "createSelector inputSelectors projector cell state =
     (let results = map (\<lambda>sel. sel state) inputSelectors
      in case memo cell of
           None \<Rightarrow> recompute projector results cell
         | Some (refs, out) \<Rightarrow>
             if refs = map addr results then (out, cell)
             else recompute projector results cell)"

text \<open>
  \<^verbatim>\<open>selectAllTodos = createSelector(selectTodos, (state: TodoState) => state.todos)\<close>.
  The projector is called with the one result of the one input selector.
\<close>

definition selectAllTodos :: "Todo list memo_cell \<Rightarrow> AppState \<Rightarrow> Todo list \<times> Todo list memo_cell" where
  "selectAllTodos =
     createSelector [selectTodos] (\<lambda>results. case results of [state] \<Rightarrow> todos (val state))"

text \<open>
  Repeated invocations of a selector, one per state of the list, threading the memo
  cell through: the outputs in order, and the final cell.
\<close>

fun selectMany ::
  "('o memo_cell \<Rightarrow> 's \<Rightarrow> 'o \<times> 'o memo_cell) \<Rightarrow> 'o memo_cell \<Rightarrow> 's list \<Rightarrow> 'o list \<times> 'o memo_cell" where
  "selectMany sel cell [] = ([], cell)"
| "selectMany sel cell (st # sts) =
     (case sel cell st of (out, cell') \<Rightarrow>
        (case selectMany sel cell' sts of (outs, cell'') \<Rightarrow> (out # outs, cell'')))"

text \<open>
  The results of the input selectors on a state, and the memo cell after the
  projector ran on them, with \<open>n\<close> projector invocations so far.
\<close>

definition results :: "('s \<Rightarrow> 'i obj) list \<Rightarrow> 's \<Rightarrow> 'i obj list" where
  "results inputSelectors state = map (\<lambda>sel. sel state) inputSelectors"

definition memoized ::
  "('s \<Rightarrow> 'i obj) list \<Rightarrow> ('i obj list \<Rightarrow> 'o) \<Rightarrow> 's \<Rightarrow> nat \<Rightarrow> 'o memo_cell" where
  "memoized inputSelectors projector state n =
     \<lparr>memo = Some (map addr (results inputSelectors state),
                   projector (results inputSelectors state)),
      projector_calls = n\<rparr>"

text \<open>
  Two root states for the examples: the initial todo slice at address 1, and the
  slice after one \<^verbatim>\<open>addTodo\<close>, a new object at address 2.
\<close>

definition app0 :: AppState where
  "app0 = \<lparr>todos_slice = Obj 1 initialState\<rparr>"

definition app1 :: AppState where
  "app1 = \<lparr>todos_slice = Obj 2 (todoReducer 1730600000000 initialState (AddTodo ''x''))\<rparr>"

section \<open>The store\<close>

text \<open>
  The Store and the Reducer Registry belong to \<^verbatim>\<open>@ngrx/store\<close>, which is not part of
  the sources. Every definition of this section is modelled from the specification:
  the contracts of the Store (4.1) and of the Reducer Registry (4.2), the concurrency
  model (5) and the error taxonomy (7).
\<close>

text \<open>
  Modelled from the spec: the error of the taxonomy that a dispatch can fail with (the
  Store is missing from the sources).
\<close>

datatype error = ReducerFault

text \<open>
  Modelled from the spec: the state tree and the Reducer Registry (missing from the
  sources). The state is a tree of named slices. A slice reducer takes its own slice
  and the action; it returns the next slice, or \<open>None\<close> when it raises. The registry
  lists the slices in registration order, each with its reducer and its initial
  value, which stands for a slice the state does not hold yet.
\<close>

type_synonym 'v state = "string \<Rightarrow> 'v option"

type_synonym ('v, 'a) slice_reducer = "'v \<Rightarrow> 'a \<Rightarrow> 'v option"

type_synonym ('v, 'a) registry = "(string \<times> ('v, 'a) slice_reducer \<times> 'v) list"

definition slice_of :: "'v state \<Rightarrow> string \<Rightarrow> 'v \<Rightarrow> 'v" where
  "slice_of st name initialValue = (case st name of Some v \<Rightarrow> v | None \<Rightarrow> initialValue)"

text \<open>
  Modelled from the spec: \<^verbatim>\<open>composeRoot\<close> of the Reducer Registry (missing from the
  sources). The root reducer applies each slice reducer, in registration order, to
  its own slice of the state before the dispatch (no slice reducer sees another's
  result), and assembles the new state in \<open>acc\<close>. If a slice reducer raises, the root
  reducer raises and what was assembled so far is dropped.
\<close>

fun apply_slices :: "('v, 'a) registry \<Rightarrow> 'v state \<Rightarrow> 'a \<Rightarrow> 'v state \<Rightarrow> 'v state option" where
  "apply_slices [] pre a acc = Some acc"
| "apply_slices ((name, reducer, initialValue) # rest) pre a acc =
     (case reducer (slice_of pre name initialValue) a of
        None \<Rightarrow> None
      | Some v \<Rightarrow> apply_slices rest pre a (acc(name \<mapsto> v)))"

definition composeRoot :: "('v, 'a) registry \<Rightarrow> 'v state \<Rightarrow> 'a \<Rightarrow> 'v state option" where
  "composeRoot reg st a = apply_slices reg st a st"

text \<open>
  Modelled from the spec: what the Store (missing from the sources) does, in order: a
  reducer run for an action with the state it produced, a reducer run for a queued
  action that raised, the notification of a subscriber (by handle) with a state, and
  the queueing of a reentrant dispatch.
\<close>

datatype ('v, 'a) event =
    Reduced 'a "'v state"
  | Faulted 'a
  | Notified nat "'v state"
  | Enqueued 'a

text \<open>
  Modelled from the spec: the Store's data (missing from the sources). A subscriber is
  a handle and an observer. What an observer does to the store when it is notified
  with a state is to dispatch actions: the observer is the list of actions it
  dispatches, in the order it dispatches them. The effect pipeline is one of the
  subscribers. The store holds the registry, the current state, the subscribers in
  registration order, and the log of its events.
\<close>

type_synonym ('v, 'a) observer = "'v state \<Rightarrow> 'a list"

record ('v, 'a) store =
  registry :: "('v, 'a) registry"
  currentState :: "'v state"
  subscribers :: "(nat \<times> ('v, 'a) observer) list"
  log :: "('v, 'a) event list"

text \<open>
  Modelled from the spec: the Store (missing from the sources) while a dispatch is in
  flight, which is the store together with the queue of the reentrant dispatches,
  oldest first. The queue exists only while a dispatch is in flight: a store at rest
  has none.
\<close>

type_synonym ('v, 'a) inflight = "('v, 'a) store \<times> 'a list"










subsection \<open>The sequential discipline\<close>

text \<open>
  Modelled from the spec: the strict sequential order of the state transitions that
  the concurrency model asks of the Store (missing from the sources), as an acceptor
  of event sequences. Its configuration is the current state, the dispatches still
  pending (oldest first), the subscribers not yet notified in the current round, and
  the dispatches that the subscriber notified last has still to issue.

  \<^item> A reducer run, or a fault, is accepted only when every subscriber has been
    notified of the run before it and has issued its dispatches, only for the oldest
    pending dispatch, and only with what the root reducer gives on the current state.
    A run starts a notification round for all subscribers; a fault starts none.
  \<^item> A notification is accepted only for the next subscriber in registration order,
    with the current state, once the subscriber before it has issued its dispatches.
  \<^item> A queued dispatch is accepted only if it is the next dispatch of the subscriber
    notified last; it goes to the end of the pending ones.
\<close>

type_synonym ('v, 'a) config =
  "'v state \<times> 'a list \<times> (nat \<times> ('v, 'a) observer) list \<times> 'a list"

fun accept ::
  "(nat \<times> ('v, 'a) observer) list \<Rightarrow> ('v state \<Rightarrow> 'a \<Rightarrow> 'v state option) \<Rightarrow>
     ('v, 'a) config \<Rightarrow> ('v, 'a) event list \<Rightarrow> ('v, 'a) config option" where
  "accept subs root c [] = Some c"
| "accept subs root (cur, pending, waiting, owed) (Reduced a s' # evs) =
     (case pending of
        [] \<Rightarrow> None
      | b # q \<Rightarrow>
          if waiting = [] \<and> owed = [] \<and> b = a \<and> root cur a = Some s'
          then accept subs root (s', q, subs, []) evs else None)"
| "accept subs root (cur, pending, waiting, owed) (Faulted a # evs) =
     (case pending of
        [] \<Rightarrow> None
      | b # q \<Rightarrow>
          if waiting = [] \<and> owed = [] \<and> b = a \<and> root cur a = None
          then accept subs root (cur, q, [], []) evs else None)"
| "accept subs root (cur, pending, waiting, owed) (Notified h s # evs) =
     (case waiting of
        [] \<Rightarrow> None
      | (h', observer) # rest \<Rightarrow>
          if owed = [] \<and> h' = h \<and> s = cur
          then accept subs root (cur, pending, rest, observer cur) evs else None)"
| "accept subs root (cur, pending, waiting, owed) (Enqueued a # evs) =
     (case owed of
        [] \<Rightarrow> None
      | b # others \<Rightarrow>
          if b = a then accept subs root (cur, pending @ [a], waiting, others) evs
          else None)"

text \<open>
  Modelled from the spec: what it is for the Store (missing from the sources), in
  flight after a dispatch of the pending actions \<open>pending\<close> to the store \<open>st\<close>, to have
  kept that order so far: the registry and the subscribers are those of \<open>st\<close>, and the
  events added to the log of \<open>st\<close> are accepted from the state of \<open>st\<close> and lead to
  the current state and the queue, with every subscriber notified.
\<close>

definition sequential ::
  "('v, 'a) store \<Rightarrow> 'a list \<Rightarrow> ('v, 'a) inflight \<Rightarrow> bool" where
  "sequential st pending c \<longleftrightarrow>
     registry (fst c) = registry st \<and> subscribers (fst c) = subscribers st \<and>
     (\<exists>evs. log (fst c) = log st @ evs \<and>
        accept (subscribers st) (composeRoot (registry st))
          (currentState st, pending, [], []) evs =
          Some (currentState (fst c), snd c, [], []))"

subsection \<open>An example store\<close>

text \<open>
  A store with two slices and two subscribers. The slice \<^verbatim>\<open>todos\<close> runs \<open>todoReducer\<close>
  (at a fixed clock reading), which never raises. The reducer of the slice
  \<^verbatim>\<open>archive\<close> raises on every \<^verbatim>\<open>removeTodo\<close>. The first subscriber plays the effect that
  loads the todos: notified of a state whose todo slice is loading, it dispatches
  \<^verbatim>\<open>loadTodosSuccess\<close> and then an \<^verbatim>\<open>addTodo\<close>. The second subscriber, notified of a state
  whose only todo is the loaded one, dispatches its removal.
\<close>

definition todos_reducer :: "(TodoState, Action) slice_reducer" where
  "todos_reducer s a = Some (todoReducer 1730600000000 s a)"

definition frozen_reducer :: "(TodoState, Action) slice_reducer" where
  "frozen_reducer s a = (case a of RemoveTodo i \<Rightarrow> None | _ \<Rightarrow> Some s)"

definition milk :: Todo where
  "milk = \<lparr>todo_id = ''1'', content = ''milk''\<rparr>"

definition eggs :: Todo where
  "eggs = \<lparr>todo_id = ''1730600000000'', content = ''eggs''\<rparr>"

definition load_effect :: "(TodoState, Action) observer" where
  "load_effect st =
     (if status (slice_of st ''todos'' initialState) = Loading
      then [LoadTodosSuccess [milk], AddTodo ''eggs''] else [])"

definition cleaner :: "(TodoState, Action) observer" where
  "cleaner st =
     (if todos (slice_of st ''todos'' initialState) = [milk]
      then [RemoveTodo ''1''] else [])"

definition demo_registry :: "(TodoState, Action) registry" where
  "demo_registry =
     [(''todos'', todos_reducer, initialState), (''archive'', frozen_reducer, initialState)]"

definition demo_subscribers :: "(nat \<times> (TodoState, Action) observer) list" where
  "demo_subscribers = [(0, load_effect), (1, cleaner)]"


definition loading_state :: "TodoState state" where
  "loading_state =
     [''todos'' \<mapsto> initialState\<lparr>status := Loading\<rparr>, ''archive'' \<mapsto> initialState]"

definition loaded_state :: "TodoState state" where
  "loaded_state =
     [''todos'' \<mapsto> \<lparr>todos = [milk], error = None, status = Success\<rparr>,
      ''archive'' \<mapsto> initialState]"

definition stocked_state :: "TodoState state" where
  "stocked_state =
     [''todos'' \<mapsto> \<lparr>todos = [milk, eggs], error = None, status = Success\<rparr>,
      ''archive'' \<mapsto> initialState]"





section \<open>Single transitions of the todo reducer\<close>

lemmas type_defs =
  addTodo_type_def removeTodo_type_def loadTodos_type_def
  loadTodosSuccess_type_def loadTodosFailure_type_def

lemma todoReducer_AddTodo:
  "todoReducer now s (AddTodo c) =
     s\<lparr>todos := todos s @ [\<lparr>todo_id = toString now, content = c\<rparr>]\<rparr>"
  by (simp add: todoReducer_def createReducer_def todo_ons_def on_def type_defs
      on_addTodo_def)

lemma todoReducer_RemoveTodo:
  "todoReducer now s (RemoveTodo i) =
     s\<lparr>todos := filter (\<lambda>todo. todo_id todo \<noteq> i) (todos s)\<rparr>"
  by (simp add: todoReducer_def createReducer_def todo_ons_def on_def type_defs
      on_removeTodo_def)

lemma todoReducer_LoadTodos:
  "todoReducer now s LoadTodos = s\<lparr>status := Loading\<rparr>"
  by (simp add: todoReducer_def createReducer_def todo_ons_def on_def type_defs
      on_loadTodos_def)

lemma todoReducer_LoadTodosSuccess:
  "todoReducer now s (LoadTodosSuccess ts) =
     s\<lparr>todos := ts, error := None, status := Success\<rparr>"
  by (simp add: todoReducer_def createReducer_def todo_ons_def on_def type_defs
      on_loadTodosSuccess_def)

lemma todoReducer_LoadTodosFailure:
  "todoReducer now s (LoadTodosFailure e) = s\<lparr>error := Some e, status := Error\<rparr>"
  by (simp add: todoReducer_def createReducer_def todo_ons_def on_def type_defs
      on_loadTodosFailure_def)

lemma handled_types_eq:
  "set handled_types =
     {addTodo_type, removeTodo_type, loadTodos_type, loadTodosSuccess_type,
      loadTodosFailure_type}"
  by (auto simp add: handled_types_def todo_ons_def on_def)

lemma map_of_todo_ons_None:
  "action_type a \<notin> set handled_types \<Longrightarrow> map_of todo_ons (action_type a) = None"
  by (simp add: handled_types_def map_of_eq_None_iff)

text \<open>
  C2. From any state, \<^verbatim>\<open>loadTodos\<close> gives status \<^verbatim>\<open>loading\<close>;
  \<^verbatim>\<open>loadTodosSuccess({todos: ts})\<close> gives status \<^verbatim>\<open>success\<close>, error \<^verbatim>\<open>null\<close> and the todos
  replaced by \<open>ts\<close>; \<^verbatim>\<open>loadTodosFailure({error: e})\<close> gives status \<^verbatim>\<open>error\<close>, error \<open>e\<close>
  and the todos of the state before it.
\<close>

theorem load_transitions:
  "status (todoReducer now s LoadTodos) = Loading
   \<and> status (todoReducer now s (LoadTodosSuccess ts)) = Success
   \<and> error (todoReducer now s (LoadTodosSuccess ts)) = None
   \<and> todos (todoReducer now s (LoadTodosSuccess ts)) = ts
   \<and> status (todoReducer now s (LoadTodosFailure e)) = Error
   \<and> error (todoReducer now s (LoadTodosFailure e)) = Some e
   \<and> todos (todoReducer now s (LoadTodosFailure e)) = todos s"
  by (simp add: todoReducer_LoadTodos todoReducer_LoadTodosSuccess
      todoReducer_LoadTodosFailure)

text \<open>
  C3. \<^verbatim>\<open>addTodo({content: "x"})\<close> on \<open>initialState\<close> gives a state whose todos are one
  todo with content \<^verbatim>\<open>"x"\<close> and the generated id, whose error is \<^verbatim>\<open>null\<close> and whose
  status is that of \<open>initialState\<close>.
\<close>

theorem addTodo_on_initialState:
  "todos (todoReducer now initialState (AddTodo ''x'')) =
     [\<lparr>todo_id = toString now, content = ''x''\<rparr>]
   \<and> error (todoReducer now initialState (AddTodo ''x'')) = None
   \<and> status (todoReducer now initialState (AddTodo ''x'')) = status initialState"
  by (simp add: todoReducer_AddTodo initialState_def)

text \<open>
  C4. \<^verbatim>\<open>removeTodo({id: "1"})\<close> on any state whose todos are exactly one todo with id
  \<^verbatim>\<open>"1"\<close> gives a state with no todos.
\<close>

theorem removeTodo_single:
  "todos s = [t] \<Longrightarrow> todo_id t = ''1'' \<Longrightarrow>
   todos (todoReducer now s (RemoveTodo ''1'')) = []"
  by (simp add: todoReducer_RemoveTodo)

theorem removeTodo_single_witness:
  "todos (todoReducer 1730600000000
            \<lparr>todos = [\<lparr>todo_id = ''1'', content = ''milk''\<rparr>], error = None, status = Success\<rparr>
            (RemoveTodo ''1'')) = []"
  using removeTodo_single
    [of "\<lparr>todos = [\<lparr>todo_id = ''1'', content = ''milk''\<rparr>], error = None, status = Success\<rparr>"
        "\<lparr>todo_id = ''1'', content = ''milk''\<rparr>" 1730600000000]
  by simp

text \<open>
  C9. From any state \<open>s\<close>, \<^verbatim>\<open>addTodo({content: c})\<close> keeps the todos of \<open>s\<close> in their order
  and appends one new todo with content \<open>c\<close> at the end; error and status are those
  of \<open>s\<close>.
\<close>

theorem addTodo_appends:
  "todos (todoReducer now s (AddTodo c)) =
     todos s @ [\<lparr>todo_id = toString now, content = c\<rparr>]
   \<and> error (todoReducer now s (AddTodo c)) = error s
   \<and> status (todoReducer now s (AddTodo c)) = status s"
  by (simp add: todoReducer_AddTodo)

text \<open>
  C10. From any state \<open>s\<close>, \<^verbatim>\<open>removeTodo({id: i})\<close> leaves error and status as they are
  in \<open>s\<close>; the todos are those of \<open>s\<close> whose id is not \<open>i\<close>, in order, so they are the
  todos of \<open>s\<close> when no todo has the id \<open>i\<close>.
\<close>

theorem removeTodo_frame:
  "error (todoReducer now s (RemoveTodo i)) = error s
   \<and> status (todoReducer now s (RemoveTodo i)) = status s
   \<and> todos (todoReducer now s (RemoveTodo i)) = filter (\<lambda>t. todo_id t \<noteq> i) (todos s)
   \<and> ((\<forall>t \<in> set (todos s). todo_id t \<noteq> i) \<longrightarrow>
        todos (todoReducer now s (RemoveTodo i)) = todos s)"
  by (simp add: todoReducer_RemoveTodo)

theorem removeTodo_frame_witness:
  "todoReducer 1730600000000
        \<lparr>todos = [\<lparr>todo_id = ''1'', content = ''milk''\<rparr>, \<lparr>todo_id = ''2'', content = ''eggs''\<rparr>],
         error = Some ''e'', status = Error\<rparr>
        (RemoveTodo ''3'') =
      \<lparr>todos = [\<lparr>todo_id = ''1'', content = ''milk''\<rparr>, \<lparr>todo_id = ''2'', content = ''eggs''\<rparr>],
       error = Some ''e'', status = Error\<rparr>"
proof -
  let ?s = "\<lparr>todos = [\<lparr>todo_id = ''1'', content = ''milk''\<rparr>, \<lparr>todo_id = ''2'', content = ''eggs''\<rparr>],
             error = Some ''e'', status = Error\<rparr>"
  have h: "\<forall>t \<in> set (todos ?s). todo_id t \<noteq> ''3''"
    by simp
  from removeTodo_frame [of 1730600000000 ?s "''3''"] h
  have "error (todoReducer 1730600000000 ?s (RemoveTodo ''3'')) = error ?s"
    and "status (todoReducer 1730600000000 ?s (RemoveTodo ''3'')) = status ?s"
    and "todos (todoReducer 1730600000000 ?s (RemoveTodo ''3'')) = todos ?s"
    by blast+
  then have "todoReducer 1730600000000 ?s (RemoveTodo ''3'') = ?s"
    by (intro TodoState.equality) simp_all
  then show ?thesis
    by simp
qed

section \<open>Unhandled actions\<close>

text \<open>
  C5. For every state object \<open>s\<close> and every action whose kind is none of the five
  kinds the reducer handles, the reducer returns \<open>s\<close> itself: the same reference,
  with no object allocated, and so the same contents.
\<close>

theorem unhandled_action_returns_input:
  "action_type a \<notin> {addTodo_type, removeTodo_type, loadTodos_type,
                       loadTodosSuccess_type, loadTodosFailure_type} \<Longrightarrow>
   todoReducer_ref now free s a = (s, free)
   \<and> ref_eq (fst (todoReducer_ref now free s a)) s
   \<and> todoReducer now (val s) a = val s"
  by (simp add: todoReducer_ref_def createReducer_ref_def todoReducer_def createReducer_def
      map_of_todo_ons_None handled_types_eq ref_eq_def)

theorem unhandled_action_returns_input_witness:
  "action_type (OtherAction ''[Scoreboard Page] Home Score'')
     \<notin> {addTodo_type, removeTodo_type, loadTodos_type,
         loadTodosSuccess_type, loadTodosFailure_type}
   \<and> todoReducer_ref 1730600000000 7 (Obj 3 initialState)
        (OtherAction ''[Scoreboard Page] Home Score'') = (Obj 3 initialState, 7)
   \<and> todoReducer 1730600000000 initialState
        (OtherAction ''[Scoreboard Page] Home Score'') = initialState"
proof -
  have h: "action_type (OtherAction ''[Scoreboard Page] Home Score'')
     \<notin> {addTodo_type, removeTodo_type, loadTodos_type,
         loadTodosSuccess_type, loadTodosFailure_type}"
    by (simp add: type_defs)
  from unhandled_action_returns_input [OF h, of 1730600000000 7 "Obj 3 initialState"] h
  show ?thesis
    by simp
qed

text \<open>
  For contrast: an action of one of the five kinds makes the reducer return a new
  object, at an address that was free before.
\<close>

lemma handled_action_returns_new_object:
  "action_type a \<in> set handled_types \<Longrightarrow> addr s < free \<Longrightarrow>
   \<not> ref_eq (fst (todoReducer_ref now free s a)) s
   \<and> snd (todoReducer_ref now free s a) = Suc free"
proof -
  assume "action_type a \<in> set handled_types" and lt: "addr s < free"
  then have "map_of todo_ons (action_type a) \<noteq> None"
    by (simp add: map_of_eq_None_iff handled_types_def)
  then obtain h where "map_of todo_ons (action_type a) = Some h"
    by blast
  with lt show ?thesis
    by (simp add: todoReducer_ref_def createReducer_ref_def ref_eq_def)
qed

section \<open>Replaying a sequence of actions\<close>

text \<open>
  C1. Replaying the same sequence of actions from the same initial state gives equal
  final states. The \<^verbatim>\<open>addTodo\<close> handler takes the id of the new todo from the clock,
  so this fails: the one-action sequence \<^verbatim>\<open>addTodo({content: "x"})\<close>, run from
  \<open>initialState\<close> at two moments one millisecond apart, ends in two different states.
\<close>

theorem replay_depends_on_clock:
  "dispatchAll initialState [(1730600000000, AddTodo ''x'')] \<noteq>
   dispatchAll initialState [(1730600000001, AddTodo ''x'')]"
  by (simp add: todoReducer_AddTodo initialState_def toString.simps digit_def)

text \<open>
  What does hold: the clock is read by the \<^verbatim>\<open>addTodo\<close> handler only, so two runs of
  the same actions end in the same state when none of the actions has the kind of
  \<^verbatim>\<open>addTodo\<close>, whatever the clock shows.
\<close>

lemma todoReducer_clock_free:
  assumes "action_type a \<noteq> addTodo_type"
  shows "todoReducer c s a = todoReducer d s a"
proof (cases a)
  case (AddTodo x)
  with assms show ?thesis
    by simp
next
  case (OtherAction k)
  with assms show ?thesis
    by (simp add: todoReducer_def createReducer_def todo_ons_def on_def
        on_removeTodo_def on_loadTodos_def on_loadTodosSuccess_def
        on_loadTodosFailure_def)
qed (simp_all add: todoReducer_RemoveTodo todoReducer_LoadTodos
      todoReducer_LoadTodosSuccess todoReducer_LoadTodosFailure)

lemma dispatchAll_clock_free:
  "map snd xs = map snd ys \<Longrightarrow>
   \<forall>a \<in> set (map snd xs). action_type a \<noteq> addTodo_type \<Longrightarrow>
   dispatchAll s xs = dispatchAll s ys"
proof (induction xs arbitrary: s ys)
  case Nil
  then show ?case by simp
next
  case (Cons x xs)
  obtain c a where x: "x = (c, a)"
    by (cases x)
  from Cons.prems(1) x obtain d ys' where ys: "ys = (d, a) # ys'"
    and rest: "map snd xs = map snd ys'"
    by (cases ys) auto
  have "todoReducer c s a = todoReducer d s a"
    using Cons.prems(2) x by (simp add: todoReducer_clock_free)
  moreover have "dispatchAll (todoReducer d s a) xs = dispatchAll (todoReducer d s a) ys'"
    using Cons.IH [OF rest] Cons.prems(2) by simp
  ultimately show ?case
    by (simp add: x ys)
qed

section \<open>Selector memoization\<close>

lemma refs_eq:
  "(\<forall>i \<in> set inputs. ref_eq (i st) (i st0)) \<longleftrightarrow>
   map addr (results inputs st) = map addr (results inputs st0)"
  by (induction inputs) (auto simp add: ref_eq_def results_def)

lemma createSelector_first:
  "memo cell = None \<Longrightarrow>
   createSelector inputs projector cell st =
     (projector (results inputs st),
      memoized inputs projector st (Suc (projector_calls cell)))"
  by (simp add: createSelector_def recompute_def memoized_def results_def Let_def)

lemma createSelector_hit:
  "\<forall>i \<in> set inputs. ref_eq (i st) (i st0) \<Longrightarrow>
   createSelector inputs projector (memoized inputs projector st0 n) st =
     (projector (results inputs st0), memoized inputs projector st0 n)"
  by (simp add: refs_eq) (simp add: createSelector_def memoized_def results_def Let_def)

lemma createSelector_miss:
  "\<exists>i \<in> set inputs. \<not> ref_eq (i st) (i st0) \<Longrightarrow>
   createSelector inputs projector (memoized inputs projector st0 n) st =
     (projector (results inputs st), memoized inputs projector st (Suc n))"
  using refs_eq [of inputs st st0]
  by (auto simp add: createSelector_def memoized_def results_def Let_def recompute_def)

lemma selectMany_hits:
  "\<forall>st \<in> set sts. \<forall>i \<in> set inputs. ref_eq (i st) (i st0) \<Longrightarrow>
   selectMany (createSelector inputs projector) (memoized inputs projector st0 n) sts =
     (replicate (length sts) (projector (results inputs st0)),
      memoized inputs projector st0 n)"
  by (induction sts) (simp_all add: createSelector_hit)

lemma selectMany_append:
  "selectMany sel cell (xs @ ys) =
     (case selectMany sel cell xs of (outs, cell') \<Rightarrow>
        (case selectMany sel cell' ys of (outs', cell'') \<Rightarrow> (outs @ outs', cell'')))"
  by (induction xs arbitrary: cell) (auto split: prod.splits)

lemma selectMany_memoized:
  assumes same0: "\<forall>st \<in> set rest0. \<forall>i \<in> set inputs. ref_eq (i st) (i st0)"
  shows "selectMany (createSelector inputs projector) empty_cell (st0 # rest0) =
           (replicate (Suc (length rest0)) (projector (results inputs st0)),
            memoized inputs projector st0 1)"
  using selectMany_hits [OF same0, of projector 1]
  by (simp add: createSelector_first empty_cell_def)

lemma selectMany_memoized_again:
  assumes changed: "\<exists>i \<in> set inputs. \<not> ref_eq (i st1) (i st0)"
    and same1: "\<forall>st \<in> set rest1. \<forall>i \<in> set inputs. ref_eq (i st) (i st1)"
  shows "selectMany (createSelector inputs projector)
           (memoized inputs projector st0 1) (st1 # rest1) =
           (replicate (Suc (length rest1)) (projector (results inputs st1)),
            memoized inputs projector st1 2)"
  using selectMany_hits [OF same1, of projector "Suc (Suc 0)"]
    createSelector_miss [OF changed, of projector "Suc 0"]
  by (simp add: numeral_2_eq_2)

text \<open>
  C6. A selector built with \<^verbatim>\<open>createSelector\<close> starts with an empty memo cell. Over an
  invocation on \<open>st0\<close> and any number of further invocations (\<open>rest0\<close>) on which every
  input selector returns a result reference-equal to its result on \<open>st0\<close>, the
  projector is invoked once, and every invocation returns the output computed by
  that one invocation. An invocation on \<open>st1\<close>, on which the result of some input
  selector is another reference, invokes the projector once more, and the invocations
  after it on reference-equal results (\<open>rest1\<close>) return the new memoized output
  without invoking it again: two projector invocations in all.
\<close>

theorem createSelector_memoization:
  assumes same0: "\<forall>st \<in> set rest0. \<forall>i \<in> set inputs. ref_eq (i st) (i st0)"
    and changed: "\<exists>i \<in> set inputs. \<not> ref_eq (i st1) (i st0)"
    and same1: "\<forall>st \<in> set rest1. \<forall>i \<in> set inputs. ref_eq (i st) (i st1)"
  shows "fst (selectMany (createSelector inputs projector) empty_cell (st0 # rest0)) =
           replicate (Suc (length rest0)) (projector (results inputs st0))
       \<and> projector_calls
           (snd (selectMany (createSelector inputs projector) empty_cell (st0 # rest0))) = 1
       \<and> fst (selectMany (createSelector inputs projector) empty_cell
           ((st0 # rest0) @ (st1 # rest1))) =
           replicate (Suc (length rest0)) (projector (results inputs st0)) @
           replicate (Suc (length rest1)) (projector (results inputs st1))
       \<and> projector_calls
           (snd (selectMany (createSelector inputs projector) empty_cell
              ((st0 # rest0) @ (st1 # rest1)))) = 2"
proof -
  note first = selectMany_memoized [OF same0, of projector]
  note second = selectMany_memoized_again [OF changed same1, of projector]
  have both: "selectMany (createSelector inputs projector) empty_cell
      ((st0 # rest0) @ (st1 # rest1)) =
      (replicate (Suc (length rest0)) (projector (results inputs st0)) @
       replicate (Suc (length rest1)) (projector (results inputs st1)),
       memoized inputs projector st1 2)"
    using first second by (simp only: selectMany_append) simp
  show ?thesis
    by (simp only: first both) (simp add: memoized_def)
qed

theorem createSelector_memoization_witness:
  "fst (selectMany selectAllTodos empty_cell [app0, app0, app0]) = [[], [], []]
   \<and> projector_calls (snd (selectMany selectAllTodos empty_cell [app0, app0, app0])) = 1
   \<and> fst (selectMany selectAllTodos empty_cell [app0, app0, app0, app1, app1]) =
       [[], [], [],
        [\<lparr>todo_id = ''1730600000000'', content = ''x''\<rparr>],
        [\<lparr>todo_id = ''1730600000000'', content = ''x''\<rparr>]]
   \<and> projector_calls
       (snd (selectMany selectAllTodos empty_cell [app0, app0, app0, app1, app1])) = 2"
proof -
  have h0: "\<forall>st \<in> set [app0, app0]. \<forall>i \<in> set [selectTodos]. ref_eq (i st) (i app0)"
    by (simp add: ref_eq_def)
  have h1: "\<exists>i \<in> set [selectTodos]. \<not> ref_eq (i app1) (i app0)"
    by (simp add: ref_eq_def selectTodos_def app0_def app1_def)
  have h2: "\<forall>st \<in> set [app1]. \<forall>i \<in> set [selectTodos]. ref_eq (i st) (i app1)"
    by (simp add: ref_eq_def)
  show ?thesis
    using createSelector_memoization
      [OF h0 h1 h2, of "\<lambda>results. case results of [state] \<Rightarrow> todos (val state)"]
    by (simp add: selectAllTodos_def results_def selectTodos_def app0_def
        app1_def initialState_def todoReducer_AddTodo toString.simps digit_def)
qed

section \<open>The store: faults\<close>





section \<open>The store: order of the transitions\<close>






lemma sequential_refl: "sequential st q (st, q)"
  by (simp add: sequential_def)







section \<open>The example store, step by step\<close>



lemma demo_root_loadTodos:
  "composeRoot demo_registry Map.empty LoadTodos = Some loading_state"
  by (simp add: demo_registry_def composeRoot_def slice_of_def todos_reducer_def
      frozen_reducer_def todoReducer_LoadTodos loading_state_def)




lemma demo_observers:
  "load_effect loading_state = [LoadTodosSuccess [milk], AddTodo ''eggs'']"
  "load_effect loaded_state = []"
  "load_effect stocked_state = []"
  "cleaner loading_state = []"
  "cleaner loaded_state = [RemoveTodo ''1'']"
  "cleaner stocked_state = []"
  by (simp_all add: load_effect_def cleaner_def loading_state_def loaded_state_def
      stocked_state_def slice_of_def initialState_def milk_def eggs_def)










text \<open>
  The acceptor tells the orders apart: the same events with the two dispatches of the
  first observer queued in the other order, or with the second subscriber notified
  first, are refused.
\<close>

lemma swapped_dispatches_refused:
  "accept demo_subscribers (composeRoot demo_registry) (Map.empty, [LoadTodos], [], [])
     [Reduced LoadTodos loading_state, Notified 0 loading_state,
      Enqueued (AddTodo ''eggs''), Enqueued (LoadTodosSuccess [milk]),
      Notified 1 loading_state] = None"
  by (simp add: demo_subscribers_def demo_root_loadTodos demo_observers)

lemma swapped_subscribers_refused:
  "accept demo_subscribers (composeRoot demo_registry) (Map.empty, [LoadTodos], [], [])
     [Reduced LoadTodos loading_state, Notified 1 loading_state,
      Notified 0 loading_state,
      Enqueued (LoadTodosSuccess [milk]), Enqueued (AddTodo ''eggs'')] = None"
  by (simp add: demo_subscribers_def demo_root_loadTodos)

end
